theory Spec2Isabelle
  imports Main "HOL-Library.Word"
begin

section \<open>The paginated loader (app/components/PaginatedDocumentList.js)\<close>

text \<open>
  The component keeps four observable fields. \<open>offset\<close> is a JavaScript number that
  starts at 0 and only ever grows by the page size, so it is a natural number here
  (exact for every value below \<open>2 ^ 53\<close>).
\<close>

record loader =
  isLoaded :: bool
  isFetching :: bool
  offset :: nat
  allowLoadMore :: bool

definition initial_loader :: loader where
  "initial_loader = \<lparr>isLoaded = False, isFetching = False, offset = 0, allowLoadMore = True\<rparr>"

text \<open>
  The argument of the injected fetch function is an object literal
  \<^verbatim>\<open>{ limit, offset: this.offset, ...this.props.options }\<close>: a finite map from keys to
  values in which the keys of \<open>options\<close>, spread last, override \<open>limit\<close> and
  \<open>offset\<close>.
\<close>

datatype param = Num nat | Str string

type_synonym request = "string \<rightharpoonup> param"

text \<open>
  Of the props only \<open>fetch\<close> and \<open>options\<close> reach the cursor logic. The fetch function is
  compared by identity (\<^verbatim>\<open>prevProps.fetch !== this.props.fetch\<close>), so it is represented
  by an identifier.
\<close>

record props =
  fetch :: nat
  options :: request

text \<open>
  What the awaited promise of \<^verbatim>\<open>this.props.fetch(...)\<close> settles to: it rejects, it
  resolves to a falsy value (\<^verbatim>\<open>undefined\<close>, \<^verbatim>\<open>null\<close>), or it resolves to an array,
  the one kind of truthy value that the contract of the fetch function allows.
\<close>

datatype 'a fetched = Rejected | Falsy | Items "'a list"

text \<open>
  \<^verbatim>\<open>fetchResults\<close> is an async function with one \<^verbatim>\<open>await\<close>. Up to the await it sets
  \<open>isFetching\<close> and calls the fetch function; \<open>fetchResults_begin\<close> returns the new
  state and the request dispatched. The page size \<^verbatim>\<open>DEFAULT_PAGINATION_LIMIT\<close> is imported
  from \<^verbatim>\<open>stores/BaseStore\<close> and is a parameter \<open>limit\<close> of every function here.
\<close>

definition fetchResults_request :: "nat \<Rightarrow> props \<Rightarrow> loader \<Rightarrow> request" where
  "fetchResults_request limit p s =
     [''limit'' \<mapsto> Num limit, ''offset'' \<mapsto> Num (offset s)] ++ options p"

definition fetchResults_begin :: "nat \<Rightarrow> props \<Rightarrow> loader \<Rightarrow> loader \<times> request" where
  "fetchResults_begin limit p s =
     (let s1 = s\<lparr>isFetching := True\<rparr>
      in (s1, fetchResults_request limit p s1))"

text \<open>
  The rest of \<^verbatim>\<open>fetchResults\<close> runs when the promise settles, on the state the component
  has by then. A rejected promise makes the \<^verbatim>\<open>await\<close> throw: nothing after it runs and
  \<open>isFetching\<close> stays as it is. The test is
  \<^verbatim>\<open>results && (results.length === 0 || results.length < DEFAULT_PAGINATION_LIMIT)\<close>.
\<close>

fun fetchResults_resume :: "nat \<Rightarrow> 'a fetched \<Rightarrow> loader \<Rightarrow> loader" where
  "fetchResults_resume limit Rejected s = s"
| "fetchResults_resume limit Falsy s =
     s\<lparr>offset := offset s + limit, isLoaded := True, isFetching := False\<rparr>"
| "fetchResults_resume limit (Items xs) s =
     (if length xs = 0 \<or> length xs < limit
      then s\<lparr>allowLoadMore := False, isLoaded := True, isFetching := False\<rparr>
      else s\<lparr>offset := offset s + limit, isLoaded := True, isFetching := False\<rparr>)"

text \<open>
  The lifecycle methods and the trigger of the waypoint. Each returns the new state and
  the request it dispatched, if any.
\<close>

definition componentDidMount :: "nat \<Rightarrow> props \<Rightarrow> loader \<Rightarrow> loader \<times> request option" where
  "componentDidMount limit p s = map_prod id Some (fetchResults_begin limit p s)"

definition componentDidUpdate :: "nat \<Rightarrow> props \<Rightarrow> props \<Rightarrow> loader \<Rightarrow> loader \<times> request option" where
  "componentDidUpdate limit prevProps p s =
     (if fetch prevProps \<noteq> fetch p
      then map_prod id Some (fetchResults_begin limit p s)
      else (s, None))"

definition loadMoreResults :: "nat \<Rightarrow> props \<Rightarrow> loader \<Rightarrow> loader \<times> request option" where
  "loadMoreResults limit p s =
     (if \<not> allowLoadMore s \<or> isFetching s then (s, None)
      else map_prod id Some (fetchResults_begin limit p s))"

text \<open>
  A mounted component: its current props, its fields, the number of fetches whose promise
  has not settled yet and the requests dispatched so far (oldest first). React assigns the
  new props before it calls \<^verbatim>\<open>componentDidUpdate\<close> with the previous ones. A promise can
  only settle while a fetch is in flight.
\<close>

record component =
  cprops :: props
  cstate :: loader
  inflight :: nat
  dispatched :: "request list"

datatype 'a event = Rerender props | LoadMore | Settle "'a fetched"

definition dispatch :: "component \<Rightarrow> loader \<times> request option \<Rightarrow> component" where
  "dispatch c r =
     (case snd r of
        None \<Rightarrow> c\<lparr>cstate := fst r\<rparr>
      | Some q \<Rightarrow> c\<lparr>cstate := fst r, inflight := Suc (inflight c),
                     dispatched := dispatched c @ [q]\<rparr>)"

definition mount :: "nat \<Rightarrow> props \<Rightarrow> component" where
  "mount limit p =
     dispatch \<lparr>cprops = p, cstate = initial_loader, inflight = 0, dispatched = []\<rparr>
       (componentDidMount limit p initial_loader)"

fun step :: "nat \<Rightarrow> component \<Rightarrow> 'a event \<Rightarrow> component" where
  "step limit c (Rerender p) =
     dispatch (c\<lparr>cprops := p\<rparr>) (componentDidUpdate limit (cprops c) p (cstate c))"
| "step limit c LoadMore = dispatch c (loadMoreResults limit (cprops c) (cstate c))"
| "step limit c (Settle r) =
     (if inflight c = 0 then c
      else c\<lparr>cstate := fetchResults_resume limit r (cstate c), inflight := inflight c - 1\<rparr>)"

definition run :: "nat \<Rightarrow> component \<Rightarrow> 'a event list \<Rightarrow> component" where
  "run limit c evs = foldl (step limit) c evs"

section \<open>The document scene (app/scenes/Document/Document.js)\<close>

subsection \<open>JavaScript strings\<close>

text \<open>
  A JavaScript string is a sequence of 16-bit code units. \<^verbatim>\<open>String.prototype.trim\<close>
  removes from both ends the code units that ECMAScript calls white space or line
  terminators: TAB, LF, VT, FF, CR, SP, NBSP, U+1680, U+2000 to U+200A, U+2028, U+2029,
  U+202F, U+205F, U+3000 and U+FEFF.
\<close>

type_synonym jsstring = "16 word list"

definition isWhiteSpace :: "16 word \<Rightarrow> bool" where
  "isWhiteSpace c \<longleftrightarrow>
     c \<in> {0x09, 0x0A, 0x0B, 0x0C, 0x0D, 0x20, 0xA0, 0x1680,
          0x2028, 0x2029, 0x202F, 0x205F, 0x3000, 0xFEFF} \<or>
     (0x2000 \<le> c \<and> c \<le> 0x200A)"

definition trim :: "jsstring \<Rightarrow> jsstring" where
  "trim s = rev (dropWhile isWhiteSpace (rev (dropWhile isWhiteSpace s)))"

text \<open>The literal \<^verbatim>\<open>'#'\<close>: the one code unit U+0023.\<close>

definition hash :: jsstring where
  "hash = [0x23]"

text \<open>An ASCII string as code units, for writing examples.\<close>

definition ascii :: "string \<Rightarrow> jsstring" where
  "ascii cs = map of_char cs"

text \<open>
  Identifiers, URLs and dates are only compared and tested for truthiness; they are
  strings of the logic. An optional value is falsy when it is absent or the empty string.
\<close>

fun truthy :: "string option \<Rightarrow> bool" where
  "truthy None = False"
| "truthy (Some v) = (v \<noteq> [])"

subsection \<open>Data\<close>

text \<open>
  The fields of \<^verbatim>\<open>models/Document\<close> that the scene reads or writes, each with the prefix
  \<open>doc_\<close>: \<^verbatim>\<open>id\<close> (absent until the first save), \<^verbatim>\<open>url\<close>, \<^verbatim>\<open>text\<close>,
  \<^verbatim>\<open>isSaving\<close> (the model's own flag), \<^verbatim>\<open>isArchived\<close> and \<^verbatim>\<open>publishedAt\<close>.
\<close>

record document =
  doc_id :: "string option"
  doc_url :: string
  doc_text :: jsstring
  doc_isSaving :: bool
  doc_isArchived :: bool
  doc_publishedAt :: "string option"

record revision =
  rev_id :: string
  rev_text :: jsstring

datatype js_error = TypeError | Thrown string

text \<open>What an awaited promise does: the \<^verbatim>\<open>await\<close> throws, or it yields a value.\<close>

datatype 'a settled = Throws js_error | Resolves 'a

text \<open>
  The observable fields of the scene. \<open>getEditorText\<close> is the callback that the editor
  hands over with every change; it is absent until the first change, and otherwise it is
  represented by the text it returns.
\<close>

record scene =
  document :: "document option"
  revision :: "revision option"
  isUploading :: bool
  isSaving :: bool
  isPublishing :: bool
  isDirty :: bool
  isEmpty :: bool
  error :: "js_error option"
  moveModalOpen :: bool
  getEditorText :: "jsstring option"

text \<open>
  The constructor takes the document from the store's cache
  (\<^verbatim>\<open>props.documents.getByUrl\<close>), which may have none.
\<close>

definition initial_scene :: "document option \<Rightarrow> scene" where
  "initial_scene cached =
     \<lparr>document = cached, revision = None, isUploading = False, isSaving = False,
      isPublishing = False, isDirty = False, isEmpty = True, error = None,
      moveModalOpen = False, getEditorText = None\<rparr>"

text \<open>
  The props the scene reads: \<^verbatim>\<open>match.path\<close>, \<^verbatim>\<open>match.url\<close>, the route parameters,
  \<^verbatim>\<open>location.pathname\<close> and whether \<^verbatim>\<open>auth.user\<close> is set.
\<close>

record scene_props =
  match_path :: string
  match_url :: string
  documentSlug :: string
  shareId :: "string option"
  revisionId :: "string option"
  pathname :: string
  auth_user :: bool

text \<open>
  \<^verbatim>\<open>utils/routeHelpers\<close> is imported by the scene; the constant and the two functions of
  it that the modelled methods use are parameters.
\<close>

record route_helpers =
  matchDocumentEdit :: string
  documentEditUrl :: "document \<Rightarrow> string"
  updateDocumentUrl :: "string \<Rightarrow> string \<Rightarrow> string"

text \<open>The options of a save; an absent option is false.\<close>

record save_options =
  opt_done :: bool
  opt_publish :: bool
  opt_autosave :: bool

text \<open>
  The calls the scene makes on its collaborators, in the order it makes them:
  the two stores' \<^verbatim>\<open>fetch\<close>, \<^verbatim>\<open>ui.setActiveDocument\<close>, \<^verbatim>\<open>history.push\<close>,
  \<^verbatim>\<open>history.replace\<close>, \<^verbatim>\<open>setTimeout(document.view, ms)\<close> and \<^verbatim>\<open>document.save\<close>.
\<close>

datatype effect =
    DocumentsFetch string "string option"
  | RevisionsFetch string "string option"
  | SetActiveDocument document
  | HistoryPush string
  | HistoryReplace string
  | SetTimeoutView document nat
  | Save document save_options

definition AUTOSAVE_DELAY :: nat where
  "AUTOSAVE_DELAY = 3000"

definition IS_DIRTY_DELAY :: nat where
  "IS_DIRTY_DELAY = 500"

definition MARK_AS_VIEWED_AFTER :: nat where
  "MARK_AS_VIEWED_AFTER = 3000"

subsection \<open>Loading\<close>

text \<open>
  The getter \<^verbatim>\<open>isEditing\<close> reads \<^verbatim>\<open>this.props\<close> and \<^verbatim>\<open>this.document\<close>:
  \<^verbatim>\<open>!!(this.props.match.path === matchDocumentEdit || (document && !document.id))\<close>.
\<close>

definition isEditing :: "route_helpers \<Rightarrow> scene_props \<Rightarrow> scene \<Rightarrow> bool" where
  "isEditing h this_props s \<longleftrightarrow>
     match_path this_props = matchDocumentEdit h \<or>
     (case document s of None \<Rightarrow> False | Some d \<Rightarrow> \<not> truthy (doc_id d))"

definition goToDocumentCanonical :: "scene \<Rightarrow> effect list" where
  "goToDocumentCanonical s =
     (case document s of None \<Rightarrow> [] | Some d \<Rightarrow> [HistoryPush (doc_url d)])"

text \<open>\<^verbatim>\<open>props.location.pathname.match(/move$/)\<close>: the path ends in \<^verbatim>\<open>move\<close>.\<close>

definition isMove :: "string \<Rightarrow> bool" where
  "isMove path \<longleftrightarrow> 4 \<le> length path \<and> drop (length path - 4) path = ''move''"

text \<open>
  \<^verbatim>\<open>loadDocument\<close> after its \<^verbatim>\<open>try\<close> block. \<open>props\<close> is the argument of
  \<^verbatim>\<open>loadDocument\<close> and \<open>this_props\<close> are the props the component has by then. The handle
  that \<^verbatim>\<open>setTimeout\<close> returns is kept in \<^verbatim>\<open>this.viewTimeout\<close> for
  \<^verbatim>\<open>componentWillUnmount\<close> only.
\<close>

definition loadDocument_finish ::
    "route_helpers \<Rightarrow> scene_props \<Rightarrow> scene_props \<Rightarrow> scene \<Rightarrow> scene \<times> effect list" where
  "loadDocument_finish h this_props props s =
     (let s1 = s\<lparr>isDirty := False, isEmpty := False\<rparr> in
      case document s1 of
        None \<Rightarrow> (s1, [])
      | Some d \<Rightarrow>
          if doc_isArchived d \<and> isEditing h this_props s1
          then (s1, SetActiveDocument d # goToDocumentCanonical s1)
          else if auth_user this_props \<and> \<not> truthy (shareId props)
          then (s1,
            SetActiveDocument d #
            (if \<not> isEditing h this_props s1 \<and> truthy (doc_publishedAt d)
             then [SetTimeoutView d MARK_AS_VIEWED_AFTER] else []) @
            (if revision s1 = None \<and> \<not> isMove (pathname props)
             then (let canonicalUrl = updateDocumentUrl h (match_url props) (doc_url d)
                   in if pathname props \<noteq> canonicalUrl
                      then [HistoryReplace canonicalUrl] else [])
             else []))
          else (s1, [SetActiveDocument d]))"

text \<open>
  \<^verbatim>\<open>loadDocument\<close> as a whole, given what the two fetches settle to (the revision is
  fetched only when the route has a revision id). The store may resolve to no document.
  An exception of either \<^verbatim>\<open>await\<close> is caught: \<open>error\<close> is set and the method returns.
  The result is the state and the calls made, the fetches included.
\<close>

definition loadDocument ::
    "route_helpers \<Rightarrow> scene_props \<Rightarrow> scene_props \<Rightarrow> document option settled \<Rightarrow>
     revision settled \<Rightarrow> scene \<Rightarrow> scene \<times> effect list" where
  "loadDocument h this_props props fetched_document fetched_revision s =
     (let fetch1 = DocumentsFetch (documentSlug props) (shareId props);
          fetch2 = RevisionsFetch (documentSlug props) (revisionId props)
      in case fetched_document of
        Throws err \<Rightarrow> (s\<lparr>error := Some err\<rparr>, [fetch1])
      | Resolves d \<Rightarrow>
          (let s1 = s\<lparr>document := d\<rparr> in
           if truthy (revisionId props)
           then (case fetched_revision of
               Throws err \<Rightarrow> (s1\<lparr>error := Some err\<rparr>, [fetch1, fetch2])
             | Resolves r \<Rightarrow>
                 map_prod id (\<lambda>es. fetch1 # fetch2 # es)
                   (loadDocument_finish h this_props props (s1\<lparr>revision := Some r\<rparr>)))
           else map_prod id (\<lambda>es. fetch1 # es)
                  (loadDocument_finish h this_props props (s1\<lparr>revision := None\<rparr>))))"

subsection \<open>Saving\<close>

text \<open>
  \<^verbatim>\<open>onSave\<close> up to its \<^verbatim>\<open>await\<close>; \<open>opts\<close> is its parameter \<^verbatim>\<open>options\<close>. The third component of the result is \<open>None\<close> when
  the method has returned, and \<open>Some isNew\<close> when it waits for \<^verbatim>\<open>document.save\<close>, with
  the value of its local \<^verbatim>\<open>isNew\<close>. The assignment \<^verbatim>\<open>document.text = text\<close> writes the
  object that \<^verbatim>\<open>this.document\<close> refers to.
\<close>

definition onSave_begin :: "save_options \<Rightarrow> scene \<Rightarrow> scene \<times> effect list \<times> bool option" where
  "onSave_begin opts s =
     (case document s of
        None \<Rightarrow> (s, [], None)
      | Some d \<Rightarrow>
          if doc_isSaving d then (s, [], None)
          else
            (let text = (case getEditorText s of Some t \<Rightarrow> t | None \<Rightarrow> doc_text d) in
             if trim text = hash then (s, [], None)
             else if opt_autosave opts \<and> trim (doc_text d) = trim text then (s, [], None)
             else
               (let d1 = d\<lparr>doc_text := text\<rparr>;
                    isNew = \<not> truthy (doc_id d1)
                in (s\<lparr>document := Some d1, isSaving := True,
                      isPublishing := opt_publish opts\<rparr>,
                    [Save d1 opts], Some isNew))))"

text \<open>
  The rest of \<^verbatim>\<open>onSave\<close>, when \<^verbatim>\<open>document.save\<close> has resolved to \<open>saved\<close>, on the
  state the scene has by then.
\<close>

definition onSave_resume ::
    "route_helpers \<Rightarrow> save_options \<Rightarrow> bool \<Rightarrow> document \<Rightarrow> scene \<Rightarrow> scene \<times> effect list" where
  "onSave_resume h opts isNew saved s =
     (let s1 = s\<lparr>isDirty := False, isSaving := False, isPublishing := False\<rparr> in
      if opt_done opts
      then (s1, [HistoryPush (doc_url saved), SetActiveDocument saved])
      else if isNew
      then (s1, [HistoryPush (documentEditUrl h saved), SetActiveDocument saved])
      else (s1, []))"

text \<open>
  A whole save, given what \<^verbatim>\<open>document.save\<close> settles to. When it rejects, the
  \<^verbatim>\<open>await\<close> throws and nothing after it runs.
\<close>

definition onSave ::
    "route_helpers \<Rightarrow> save_options \<Rightarrow> document settled \<Rightarrow> scene \<Rightarrow> scene \<times> effect list" where
  "onSave h opts settled s =
     (case onSave_begin opts s of
        (s1, es, None) \<Rightarrow> (s1, es)
      | (s1, es, Some isNew) \<Rightarrow>
          (case settled of
             Throws err \<Rightarrow> (s1, es)
           | Resolves saved \<Rightarrow>
               map_prod id (\<lambda>es2. es @ es2) (onSave_resume h opts isNew saved s1)))"

subsection \<open>Changes and the debounced checks\<close>

text \<open>
  The body of \<^verbatim>\<open>updateIsDirty\<close>. Calling \<^verbatim>\<open>this.getEditorText\<close> before the editor has
  supplied it throws a \<^verbatim>\<open>TypeError\<close>.
\<close>

definition updateIsDirty :: "scene \<Rightarrow> js_error + scene" where
  "updateIsDirty s =
     (case getEditorText s of
        None \<Rightarrow> Inl TypeError
      | Some t \<Rightarrow>
          (let editorText = trim t in
           Inr (s\<lparr>isEmpty := (editorText = hash),
                  isDirty := (case document s of
                                None \<Rightarrow> False
                              | Some d \<Rightarrow> editorText \<noteq> trim (doc_text d))\<rparr>)))"

text \<open>
  \<^verbatim>\<open>updateIsDirty\<close> and \<^verbatim>\<open>autosave\<close> are wrapped in lodash's \<^verbatim>\<open>debounce\<close> with its
  default options: each call restarts a timer, and the wrapped function runs once when
  the timer has run for the whole delay. The scene together with the two timers (the
  milliseconds left of each, if it is running) and the calls made so far:
\<close>

record world =
  the_scene :: scene
  dirty_timer :: "nat option"
  autosave_timer :: "nat option"
  calls :: "effect list"

definition onChange :: "jsstring \<Rightarrow> world \<Rightarrow> world" where
  "onChange editor_text w =
     w\<lparr>the_scene := (the_scene w)\<lparr>getEditorText := Some editor_text\<rparr>,
       dirty_timer := Some IS_DIRTY_DELAY,
       autosave_timer := Some AUTOSAVE_DELAY\<rparr>"

definition run_updateIsDirty :: "world \<Rightarrow> world" where
  "run_updateIsDirty w =
     (case updateIsDirty (the_scene w) of
        Inl err \<Rightarrow> w\<lparr>dirty_timer := None\<rparr>
      | Inr s \<Rightarrow> w\<lparr>the_scene := s, dirty_timer := None\<rparr>)"

definition run_autosave :: "world \<Rightarrow> world" where
  "run_autosave w =
     (case onSave_begin \<lparr>opt_done = False, opt_publish = False, opt_autosave = True\<rparr>
             (the_scene w) of
        (s, es, waiting) \<Rightarrow>
          w\<lparr>the_scene := s, autosave_timer := None, calls := calls w @ es\<rparr>)"

text \<open>One millisecond passes; a timer that reaches its delay runs its function.\<close>

definition tick_dirty :: "world \<Rightarrow> world" where
  "tick_dirty w =
     (case dirty_timer w of
        None \<Rightarrow> w
      | Some r \<Rightarrow> if r \<le> 1 then run_updateIsDirty w else w\<lparr>dirty_timer := Some (r - 1)\<rparr>)"

definition tick_autosave :: "world \<Rightarrow> world" where
  "tick_autosave w =
     (case autosave_timer w of
        None \<Rightarrow> w
      | Some r \<Rightarrow> if r \<le> 1 then run_autosave w else w\<lparr>autosave_timer := Some (r - 1)\<rparr>)"

definition tick :: "world \<Rightarrow> world" where
  "tick w = tick_autosave (tick_dirty w)"

primrec elapse :: "nat \<Rightarrow> world \<Rightarrow> world" where
  "elapse 0 w = w"
| "elapse (Suc n) w = tick (elapse n w)"

section \<open>Example inputs\<close>

text \<open>
  The scenario of the specification for the loader: page size 10, pages of 10, 10 and 4
  items, each requested by a load-more trigger after the one before has arrived.
\<close>

definition plain_props :: "nat \<Rightarrow> props" where
  "plain_props f = \<lparr>fetch = f, options = Map.empty\<rparr>"

definition scenario :: "nat event list" where
  "scenario =
     [Settle (Items (replicate 10 0)), LoadMore,
      Settle (Items (replicate 10 0)), LoadMore,
      Settle (Items (replicate 4 0))]"

text \<open>
  For the scene: route helpers that build the edit URL by appending \<^verbatim>\<open>/edit\<close> and
  take the document's URL as the canonical one; the props of a signed-in viewer on the
  document's own route, and on the route of one of its revisions; a published document,
  a draft of it, and a document that has never been saved.
\<close>

definition example_helpers :: route_helpers where
  "example_helpers =
     \<lparr>matchDocumentEdit = ''/doc/:documentSlug/edit'',
      documentEditUrl = (\<lambda>d. doc_url d @ ''/edit''),
      updateDocumentUrl = (\<lambda>oldUrl newUrl. newUrl)\<rparr>"

definition view_props :: scene_props where
  "view_props =
     \<lparr>match_path = ''/doc/:documentSlug'', match_url = ''/doc/title-abc'',
      documentSlug = ''title-abc'', shareId = None, revisionId = None,
      pathname = ''/doc/title-abc'', auth_user = True\<rparr>"

definition published_doc :: document where
  "published_doc =
     \<lparr>doc_id = Some ''d1'', doc_url = ''/doc/title-abc'', doc_text = ascii ''# Title'',
      doc_isSaving = False, doc_isArchived = False, doc_publishedAt = Some ''2019-01-01''\<rparr>"

definition draft_doc :: document where
  "draft_doc = published_doc\<lparr>doc_publishedAt := None\<rparr>"

definition new_doc :: document where
  "new_doc =
     \<lparr>doc_id = None, doc_url = [], doc_text = ascii ''#'',
      doc_isSaving = False, doc_isArchived = False, doc_publishedAt = None\<rparr>"

definition some_revision :: revision where
  "some_revision = \<lparr>rev_id = ''r1'', rev_text = ascii ''# Old title''\<rparr>"

definition revision_props :: scene_props where
  "revision_props = view_props\<lparr>revisionId := Some ''r1''\<rparr>"

definition editing_scene :: "document \<Rightarrow> jsstring \<Rightarrow> scene" where
  "editing_scene d t = (initial_scene (Some d))\<lparr>isEmpty := False, getEditorText := Some t\<rparr>"

definition explicit_save :: save_options where
  "explicit_save = \<lparr>opt_done = False, opt_publish = False, opt_autosave = False\<rparr>"

definition autosave_save :: save_options where
  "autosave_save = \<lparr>opt_done = False, opt_publish = False, opt_autosave = True\<rparr>"

definition publish_save :: save_options where
  "publish_save = \<lparr>opt_done = True, opt_publish = True, opt_autosave = False\<rparr>"

definition saved_doc :: document where
  "saved_doc = published_doc\<lparr>doc_publishedAt := None\<rparr>"

text \<open>
  The scenario of the specification for the scene: the last saved text is
  \<^verbatim>\<open># Title\<close>, and the editor reports that text followed by a line feed and
  \<^verbatim>\<open>Body\<close>.
\<close>

definition loaded_world :: world where
  "loaded_world =
     \<lparr>the_scene = (initial_scene (Some published_doc))\<lparr>isEmpty := False\<rparr>,
      dirty_timer = None, autosave_timer = None, calls = []\<rparr>"

definition title_and_body :: jsstring where
  "title_and_body = ascii ''# Title'' @ [0x0A] @ ascii ''Body''"

section \<open>Properties of the paginated loader\<close>

lemma allowLoadMore_begin:
  "allowLoadMore (fst (fetchResults_begin limit p s)) = allowLoadMore s"
  by (simp add: fetchResults_begin_def Let_def)

lemma allowLoadMore_resume:
  "\<not> allowLoadMore s \<Longrightarrow> \<not> allowLoadMore (fetchResults_resume limit r s)"
  by (cases r) simp_all

lemma allowLoadMore_step:
  "\<not> allowLoadMore (cstate c) \<Longrightarrow> \<not> allowLoadMore (cstate (step limit c ev))"
  by (cases ev)
    (auto simp: dispatch_def componentDidUpdate_def loadMoreResults_def
      allowLoadMore_begin allowLoadMore_resume split: option.splits)

lemma allowLoadMore_run:
  "\<not> allowLoadMore (cstate c) \<Longrightarrow> \<not> allowLoadMore (cstate (run limit c evs))"
  unfolding run_def
  by (induction evs arbitrary: c) (simp_all add: allowLoadMore_step)

lemma fetchResults_resume_full:
  "0 < N \<Longrightarrow> length xs = N \<Longrightarrow>
     fetchResults_resume N (Items xs) s =
       s\<lparr>offset := offset s + N, isLoaded := True, isFetching := False\<rparr>"
  by simp

lemma fetchResults_resume_short:
  "length xs < N \<Longrightarrow>
     fetchResults_resume N (Items xs) s =
       s\<lparr>allowLoadMore := False, isLoaded := True, isFetching := False\<rparr>"
  by simp

lemma loadMoreResults_dispatch:
  "allowLoadMore s \<Longrightarrow> \<not> isFetching s \<Longrightarrow>
     loadMoreResults N p s =
       (s\<lparr>isFetching := True\<rparr>,
        Some ([''limit'' \<mapsto> Num N, ''offset'' \<mapsto> Num (offset s)] ++ options p))"
  by (simp add: loadMoreResults_def fetchResults_begin_def fetchResults_request_def Let_def)

text \<open>
  The scenario of the specification: the requests carry the offsets 0, 10 and 20, and a
  fourth load-more trigger, after the short page, dispatches nothing.
\<close>

lemma scenario_offsets:
  "map (\<lambda>q. q ''offset'') (dispatched (run 10 (mount 10 (plain_props 1)) (scenario @ [LoadMore]))) =
     [Some (Num 0), Some (Num 10), Some (Num 20)]"
  by (simp add: scenario_def run_def mount_def dispatch_def componentDidMount_def
      loadMoreResults_def fetchResults_begin_def fetchResults_request_def
      initial_loader_def plain_props_def Let_def)

text \<open>
  C1. Let the page size \<open>N\<close> be positive and let a fetch settle with an array \<open>xs\<close> on
  the state \<open>s\<close>. If \<open>xs\<close> has exactly \<open>N\<close> items, the offset grows by exactly \<open>N\<close> and
  \<open>allowLoadMore\<close> is left as it was (true stays true). If \<open>xs\<close> has fewer than \<open>N\<close>
  items (none included), \<open>allowLoadMore\<close> becomes false and the offset does not move;
  and from then on \<open>allowLoadMore\<close> is false after every sequence of events of the
  component (re-renders with any props, load-more triggers, fetches settling with any
  result): nothing sets it back to true.
\<close>

theorem fetch_step_cursor:
  assumes "0 < N"
  shows "(length xs = N \<longrightarrow>
            offset (fetchResults_resume N (Items xs) s) = offset s + N \<and>
            allowLoadMore (fetchResults_resume N (Items xs) s) = allowLoadMore s) \<and>
         (length xs < N \<longrightarrow>
            \<not> allowLoadMore (fetchResults_resume N (Items xs) s) \<and>
            offset (fetchResults_resume N (Items xs) s) = offset s \<and>
            (\<forall>c evs. cstate c = fetchResults_resume N (Items xs) s \<longrightarrow>
               \<not> allowLoadMore (cstate (run N c evs))))"
proof (intro conjI impI allI)
  assume full: "length xs = N"
  from assms full show "offset (fetchResults_resume N (Items xs) s) = offset s + N"
    by (simp add: fetchResults_resume_full)
  from assms full show "allowLoadMore (fetchResults_resume N (Items xs) s) = allowLoadMore s"
    by (simp add: fetchResults_resume_full)
next
  assume short: "length xs < N"
  then show stop: "\<not> allowLoadMore (fetchResults_resume N (Items xs) s)"
    by (simp add: fetchResults_resume_short)
  from short show "offset (fetchResults_resume N (Items xs) s) = offset s"
    by (simp add: fetchResults_resume_short)
  fix c :: component and evs :: "'b event list"
  assume "cstate c = fetchResults_resume N (Items xs) s"
  with stop have "\<not> allowLoadMore (cstate c)"
    by simp
  then show "\<not> allowLoadMore (cstate (run N c evs))"
    by (rule allowLoadMore_run)
qed

text \<open>
  On the scenario of the specification: the second full page leaves the offset at 20,
  and after the short page neither a load-more trigger nor a new fetch function brings
  \<open>allowLoadMore\<close> back.
\<close>

theorem fetch_step_cursor_witness:
  "offset (fetchResults_resume 10 (Items (replicate 10 (0::nat))) initial_loader) = 10 \<and>
   allowLoadMore (fetchResults_resume 10 (Items (replicate 10 (0::nat))) initial_loader) \<and>
   \<not> allowLoadMore (fetchResults_resume 10 (Items (replicate 4 (0::nat)))
        (cstate (run 10 (mount 10 (plain_props 1)) (take 4 scenario)))) \<and>
   offset (fetchResults_resume 10 (Items (replicate 4 (0::nat)))
        (cstate (run 10 (mount 10 (plain_props 1)) (take 4 scenario)))) = 20 \<and>
   cstate (run 10 (mount 10 (plain_props 1)) scenario) =
     fetchResults_resume 10 (Items (replicate 4 (0::nat)))
        (cstate (run 10 (mount 10 (plain_props 1)) (take 4 scenario))) \<and>
   \<not> allowLoadMore (cstate (run 10 (run 10 (mount 10 (plain_props 1)) scenario)
        [LoadMore, Rerender (plain_props 2), Settle (Items (replicate 10 (0::nat)))]))"
proof -
  let ?s = "cstate (run 10 (mount 10 (plain_props 1)) (take 4 scenario))"
  let ?c = "run 10 (mount 10 (plain_props 1)) scenario"
  have pos: "(0::nat) < 10"
    by simp
  have s: "?s = \<lparr>isLoaded = True, isFetching = True, offset = 20, allowLoadMore = True\<rparr>"
    by (simp add: scenario_def run_def mount_def dispatch_def componentDidMount_def
        loadMoreResults_def fetchResults_begin_def initial_loader_def plain_props_def Let_def)
  have c: "cstate ?c = fetchResults_resume 10 (Items (replicate 4 (0::nat))) ?s"
    by (simp add: scenario_def run_def mount_def dispatch_def componentDidMount_def
        loadMoreResults_def fetchResults_begin_def initial_loader_def plain_props_def Let_def)
  have full: "length (replicate 10 (0::nat)) = 10" and short: "length (replicate 4 (0::nat)) < 10"
    by simp_all
  from fetch_step_cursor [OF pos, of "replicate 10 (0::nat)" initial_loader] full
  have a: "offset (fetchResults_resume 10 (Items (replicate 10 (0::nat))) initial_loader) = 10 \<and>
      allowLoadMore (fetchResults_resume 10 (Items (replicate 10 (0::nat))) initial_loader)"
    by (simp add: initial_loader_def)
  from fetch_step_cursor [OF pos, of "replicate 4 (0::nat)" ?s] short c
  have b: "\<not> allowLoadMore (fetchResults_resume 10 (Items (replicate 4 (0::nat))) ?s) \<and>
      offset (fetchResults_resume 10 (Items (replicate 4 (0::nat))) ?s) = offset ?s \<and>
      \<not> allowLoadMore (cstate (run 10 ?c
        [LoadMore, Rerender (plain_props 2), Settle (Items (replicate 10 (0::nat)))]))"
    by blast
  from a b c s show ?thesis
    by simp
qed

text \<open>
  C2. In every state in which \<open>isFetching\<close> is true or \<open>allowLoadMore\<close> is false,
  \<^verbatim>\<open>loadMoreResults\<close> dispatches no fetch and returns the state as it was; the component
  (fields, fetches in flight, requests dispatched) is unchanged.
\<close>

theorem loadMore_noop:
  assumes "isFetching (cstate c) \<or> \<not> allowLoadMore (cstate c)"
  shows "loadMoreResults N (cprops c) (cstate c) = (cstate c, None) \<and>
         step N c LoadMore = c"
  using assms by (auto simp: loadMoreResults_def dispatch_def)

theorem loadMore_noop_witness:
  "loadMoreResults 10 (plain_props 1) (cstate (mount 10 (plain_props 1))) =
     (cstate (mount 10 (plain_props 1)), None) \<and>
   step 10 (mount 10 (plain_props 1)) (LoadMore :: nat event) = mount 10 (plain_props 1) \<and>
   isFetching (cstate (mount 10 (plain_props 1))) \<and>
   step 10 (run 10 (mount 10 (plain_props 1)) scenario) (LoadMore :: nat event) =
     run 10 (mount 10 (plain_props 1)) scenario \<and>
   \<not> isFetching (cstate (run 10 (mount 10 (plain_props 1)) scenario)) \<and>
   \<not> allowLoadMore (cstate (run 10 (mount 10 (plain_props 1)) scenario))"
proof -
  let ?m = "mount 10 (plain_props 1)"
  let ?c = "run 10 ?m scenario"
  have m: "isFetching (cstate ?m)" "cprops ?m = plain_props 1"
    by (simp_all add: mount_def dispatch_def componentDidMount_def fetchResults_begin_def Let_def)
  have c: "\<not> isFetching (cstate ?c)" "\<not> allowLoadMore (cstate ?c)"
    by (simp_all add: scenario_def run_def mount_def dispatch_def componentDidMount_def
        loadMoreResults_def fetchResults_begin_def initial_loader_def plain_props_def Let_def)
  from m have "isFetching (cstate ?m) \<or> \<not> allowLoadMore (cstate ?m)"
    by simp
  from loadMore_noop [OF this, of 10, where ?'a = nat]
  have a: "loadMoreResults 10 (plain_props 1) (cstate ?m) = (cstate ?m, None) \<and>
      step 10 ?m (LoadMore :: nat event) = ?m"
    unfolding m(2) .
  from c have "isFetching (cstate ?c) \<or> \<not> allowLoadMore (cstate ?c)"
    by simp
  from loadMore_noop [OF this, of 10, where ?'a = nat]
  have b: "step 10 ?c (LoadMore :: nat event) = ?c"
    by (rule conjunct2)
  from a b m(1) c show ?thesis
    by blast
qed




text \<open>
  C10. If the fetch resolves to a falsy value while \<open>allowLoadMore\<close> is true, the offset
  advances by the page size and \<open>allowLoadMore\<close> stays true, exactly as after a full
  page; the next load-more trigger then dispatches a fetch at the advanced offset.
\<close>

theorem falsy_result_advances:
  assumes "allowLoadMore s"
  shows "offset (fetchResults_resume N (Falsy :: 'a fetched) s) = offset s + N \<and>
         allowLoadMore (fetchResults_resume N (Falsy :: 'a fetched) s) \<and>
         (0 < N \<and> length xs = N \<longrightarrow>
            fetchResults_resume N (Falsy :: 'a fetched) s = fetchResults_resume N (Items xs) s) \<and>
         loadMoreResults N p (fetchResults_resume N (Falsy :: 'a fetched) s) =
           ((fetchResults_resume N (Falsy :: 'a fetched) s)\<lparr>isFetching := True\<rparr>,
            Some ([''limit'' \<mapsto> Num N, ''offset'' \<mapsto> Num (offset s + N)] ++ options p))"
proof -
  let ?s = "fetchResults_resume N (Falsy :: 'a fetched) s"
  from assms have "loadMoreResults N p ?s =
      (?s\<lparr>isFetching := True\<rparr>,
       Some ([''limit'' \<mapsto> Num N, ''offset'' \<mapsto> Num (offset s + N)] ++ options p))"
    by (simp add: loadMoreResults_dispatch)
  with assms show ?thesis
    by simp
qed

theorem falsy_result_advances_witness:
  "allowLoadMore (cstate (mount 10 (plain_props 1))) \<and>
   offset (fetchResults_resume 10 (Falsy :: nat fetched) (cstate (mount 10 (plain_props 1)))) = 10 \<and>
   allowLoadMore (fetchResults_resume 10 (Falsy :: nat fetched) (cstate (mount 10 (plain_props 1)))) \<and>
   fetchResults_resume 10 (Falsy :: nat fetched) (cstate (mount 10 (plain_props 1))) =
     fetchResults_resume 10 (Items (replicate 10 (0::nat))) (cstate (mount 10 (plain_props 1))) \<and>
   the (snd (loadMoreResults 10 (plain_props 1)
     (fetchResults_resume 10 (Falsy :: nat fetched) (cstate (mount 10 (plain_props 1)))))) ''offset'' =
     Some (Num 10)"
proof -
  let ?m = "cstate (mount 10 (plain_props 1))"
  have m: "?m = \<lparr>isLoaded = False, isFetching = True, offset = 0, allowLoadMore = True\<rparr>"
    by (simp add: mount_def dispatch_def componentDidMount_def fetchResults_begin_def
        initial_loader_def Let_def)
  then have allow: "allowLoadMore ?m"
    by simp
  have full: "(0::nat) < 10 \<and> length (replicate 10 (0::nat)) = 10"
    by simp
  from falsy_result_advances [OF allow, where N = 10 and xs = "replicate 10 (0::nat)"
      and p = "plain_props 1" and ?'a = nat] full
  have "offset (fetchResults_resume 10 (Falsy :: nat fetched) ?m) = offset ?m + 10 \<and>
      allowLoadMore (fetchResults_resume 10 (Falsy :: nat fetched) ?m) \<and>
      fetchResults_resume 10 (Falsy :: nat fetched) ?m =
        fetchResults_resume 10 (Items (replicate 10 (0::nat))) ?m \<and>
      loadMoreResults 10 (plain_props 1) (fetchResults_resume 10 (Falsy :: nat fetched) ?m) =
        ((fetchResults_resume 10 (Falsy :: nat fetched) ?m)\<lparr>isFetching := True\<rparr>,
         Some ([''limit'' \<mapsto> Num 10, ''offset'' \<mapsto> Num (offset ?m + 10)] ++
           options (plain_props 1)))"
    by blast
  with allow m show ?thesis
    by (simp add: plain_props_def)
qed

section \<open>Properties of the document scene\<close>

text \<open>
  How the timers run down after a change: until the shorter delay has passed nothing
  runs, and when it has passed the dirty-check runs.
\<close>

lemma elapse_before:
  "dirty_timer w = Some r \<Longrightarrow> autosave_timer w = Some a \<Longrightarrow> n < r \<Longrightarrow> n < a \<Longrightarrow>
     elapse n w = w\<lparr>dirty_timer := Some (r - n), autosave_timer := Some (a - n)\<rparr>"
proof (induction n)
  case 0
  then show ?case by (cases w) simp
next
  case (Suc n)
  then have "elapse n w = w\<lparr>dirty_timer := Some (r - n), autosave_timer := Some (a - n)\<rparr>"
    by simp
  moreover from Suc.prems have "\<not> r - n \<le> 1" "\<not> a - n \<le> 1"
    by simp_all
  ultimately show ?case
    by (simp add: tick_def tick_dirty_def tick_autosave_def)
qed

lemma elapse_dirty_fires:
  assumes "dirty_timer w = Some r" and "autosave_timer w = Some a" and "0 < r" and "r < a"
  shows "elapse r w = (run_updateIsDirty w)\<lparr>autosave_timer := Some (a - r)\<rparr>"
proof -
  from assms obtain n where r: "r = Suc n"
    by (cases r) auto
  with assms have "elapse n w = w\<lparr>dirty_timer := Some (r - n), autosave_timer := Some (a - n)\<rparr>"
    by (intro elapse_before) simp_all
  moreover from r assms have "\<not> a - n \<le> 1" "r - n = 1" "a - n - 1 = a - r"
    by simp_all
  ultimately show ?thesis
    unfolding r
    by (simp add: tick_def tick_dirty_def tick_autosave_def run_updateIsDirty_def
        split: sum.split)
qed

lemma onChange_fields:
  "dirty_timer (onChange t w) = Some IS_DIRTY_DELAY"
  "autosave_timer (onChange t w) = Some AUTOSAVE_DELAY"
  "the_scene (onChange t w) = (the_scene w)\<lparr>getEditorText := Some t\<rparr>"
  by (simp_all add: onChange_def)

lemma updateIsDirty_loaded:
  "document s = Some d \<Longrightarrow> getEditorText s = Some t \<Longrightarrow>
     updateIsDirty s =
       Inr (s\<lparr>isEmpty := (trim t = hash), isDirty := (trim t \<noteq> trim (doc_text d))\<rparr>)"
  by (simp add: updateIsDirty_def Let_def)

text \<open>
  C4. In every state of the scene in which the current text, trimmed, is the single
  character \<^verbatim>\<open>#\<close>, a save with any options returns at once: the state is as it was
  (\<open>isSaving\<close> and \<open>isPublishing\<close> are not set) and no call is made, so nothing is
  persisted and there is no navigation. The current text is the one the editor's callback
  returns or, while the editor has supplied no callback, the text of the document, as
  \<^verbatim>\<open>onSave\<close> reads it. The dirty-check sets \<open>isEmpty\<close> to true: its body does on
  every state whose callback returns such a text, and so does the debounced check that
  runs 500 ms after the editor has reported such a text, whatever the state was before.
\<close>

theorem single_hash_suppresses_save:
  "(getEditorText s = Some t \<and> trim t = hash \<longrightarrow>
      updateIsDirty s =
        Inr (s\<lparr>isEmpty := True,
               isDirty := (case document s of
                             None \<Rightarrow> False
                           | Some d \<Rightarrow> hash \<noteq> trim (doc_text d))\<rparr>) \<and>
      onSave_begin opts s = (s, [], None) \<and>
      onSave h opts settled s = (s, [])) \<and>
   (getEditorText s = None \<and> document s = Some d \<and> trim (doc_text d) = hash \<longrightarrow>
      onSave_begin opts s = (s, [], None) \<and>
      onSave h opts settled s = (s, [])) \<and>
   (trim t = hash \<longrightarrow>
      isEmpty (the_scene (elapse IS_DIRTY_DELAY (onChange t w))))"
proof (intro conjI impI)
  assume a: "getEditorText s = Some t \<and> trim t = hash"
  then show "updateIsDirty s =
      Inr (s\<lparr>isEmpty := True,
             isDirty := (case document s of None \<Rightarrow> False | Some d \<Rightarrow> hash \<noteq> trim (doc_text d))\<rparr>)"
    by (simp add: updateIsDirty_def)
  from a show beg: "onSave_begin opts s = (s, [], None)"
    by (simp add: onSave_begin_def split: option.split)
  then show "onSave h opts settled s = (s, [])"
    by (simp add: onSave_def)
next
  assume "getEditorText s = None \<and> document s = Some d \<and> trim (doc_text d) = hash"
  then show beg: "onSave_begin opts s = (s, [], None)"
    by (simp add: onSave_begin_def)
  then show "onSave h opts settled s = (s, [])"
    by (simp add: onSave_def)
next
  assume h: "trim t = hash"
  have "0 < IS_DIRTY_DELAY" and "IS_DIRTY_DELAY < AUTOSAVE_DELAY"
    by (simp_all add: IS_DIRTY_DELAY_def AUTOSAVE_DELAY_def)
  then have "elapse IS_DIRTY_DELAY (onChange t w) =
      (run_updateIsDirty (onChange t w))\<lparr>autosave_timer := Some (AUTOSAVE_DELAY - IS_DIRTY_DELAY)\<rparr>"
    by (intro elapse_dirty_fires onChange_fields)
  with h show "isEmpty (the_scene (elapse IS_DIRTY_DELAY (onChange t w)))"
    by (simp add: run_updateIsDirty_def updateIsDirty_def onChange_fields)
qed

text \<open>
  An editor text of a \<^verbatim>\<open>#\<close> between spaces; a document that has just been loaded,
  whose own text is \<^verbatim>\<open>#\<close>, before the editor has reported anything; and the same
  editor text reported to the loaded scene of the scenario.
\<close>

theorem single_hash_suppresses_save_witness:
  "trim (ascii '' # '') = hash \<and>
   updateIsDirty (editing_scene published_doc (ascii '' # '')) =
     Inr ((editing_scene published_doc (ascii '' # ''))\<lparr>isEmpty := True, isDirty := True\<rparr>) \<and>
   onSave_begin autosave_save (editing_scene published_doc (ascii '' # '')) =
     (editing_scene published_doc (ascii '' # ''), [], None) \<and>
   onSave example_helpers publish_save (Resolves saved_doc)
     (editing_scene published_doc (ascii '' # '')) =
     (editing_scene published_doc (ascii '' # ''), []) \<and>
   getEditorText ((initial_scene (Some new_doc))\<lparr>isEmpty := False\<rparr>) = None \<and>
   trim (doc_text new_doc) = hash \<and>
   onSave_begin explicit_save ((initial_scene (Some new_doc))\<lparr>isEmpty := False\<rparr>) =
     ((initial_scene (Some new_doc))\<lparr>isEmpty := False\<rparr>, [], None) \<and>
   onSave example_helpers publish_save (Resolves saved_doc)
     ((initial_scene (Some new_doc))\<lparr>isEmpty := False\<rparr>) =
     ((initial_scene (Some new_doc))\<lparr>isEmpty := False\<rparr>, []) \<and>
   \<not> isEmpty (the_scene loaded_world) \<and>
   isEmpty (the_scene (elapse 500 (onChange (ascii '' # '') loaded_world)))"
proof -
  let ?s = "editing_scene published_doc (ascii '' # '')"
  let ?l = "(initial_scene (Some new_doc))\<lparr>isEmpty := False\<rparr>"
  have h: "trim (ascii '' # '') = hash"
    by (simp add: trim_def ascii_def hash_def isWhiteSpace_def)
  have t: "getEditorText ?s = Some (ascii '' # '')"
    by (simp add: editing_scene_def initial_scene_def)
  have d: "document ?s = Some published_doc" "hash \<noteq> trim (doc_text published_doc)"
    by (simp_all add: editing_scene_def initial_scene_def published_doc_def
        trim_def ascii_def hash_def isWhiteSpace_def)
  have l: "getEditorText ?l = None" "document ?l = Some new_doc" "trim (doc_text new_doc) = hash"
    by (simp_all add: initial_scene_def new_doc_def trim_def ascii_def hash_def isWhiteSpace_def)
  have w: "\<not> isEmpty (the_scene loaded_world)"
    by (simp add: loaded_world_def initial_scene_def)
  have m: "IS_DIRTY_DELAY = 500"
    by (simp add: IS_DIRTY_DELAY_def)
  from single_hash_suppresses_save [where s = ?s and t = "ascii '' # ''"
      and opts = autosave_save and h = example_helpers and settled = "Resolves saved_doc"
      and d = new_doc and w = loaded_world]
    single_hash_suppresses_save [where s = ?s and t = "ascii '' # ''"
      and opts = publish_save and h = example_helpers and settled = "Resolves saved_doc"
      and d = new_doc and w = loaded_world]
    h t d
  have a: "updateIsDirty ?s = Inr (?s\<lparr>isEmpty := True, isDirty := True\<rparr>) \<and>
      onSave_begin autosave_save ?s = (?s, [], None) \<and>
      onSave example_helpers publish_save (Resolves saved_doc) ?s = (?s, []) \<and>
      isEmpty (the_scene (elapse 500 (onChange (ascii '' # '') loaded_world)))"
    unfolding m by simp
  from single_hash_suppresses_save [where s = ?l and t = "ascii '' # ''"
      and opts = explicit_save and h = example_helpers and settled = "Resolves saved_doc"
      and d = new_doc and w = loaded_world]
    single_hash_suppresses_save [where s = ?l and t = "ascii '' # ''"
      and opts = publish_save and h = example_helpers and settled = "Resolves saved_doc"
      and d = new_doc and w = loaded_world]
    l
  have b: "onSave_begin explicit_save ?l = (?l, [], None) \<and>
      onSave example_helpers publish_save (Resolves saved_doc) ?l = (?l, [])"
    by simp
  from a b h l w show ?thesis
    by blast
qed

text \<open>
  C5. Let the scene hold a document whose text, trimmed, equals the trimmed current text
  (the editor's, or the document's own while the editor has reported none). A save with
  the autosave option returns without persisting. A save without it, when the document
  is not being saved and the text is not the single \<^verbatim>\<open>#\<close>, proceeds: it writes the
  text to the document, sets \<open>isSaving\<close>, and calls \<^verbatim>\<open>document.save\<close>.
\<close>

theorem autosave_unchanged_suppressed:
  assumes "document s = Some d"
    and "text = (case getEditorText s of Some t \<Rightarrow> t | None \<Rightarrow> doc_text d)"
    and "trim text = trim (doc_text d)"
  shows "(opt_autosave opts \<longrightarrow>
            onSave_begin opts s = (s, [], None) \<and> onSave h opts settled s = (s, [])) \<and>
         (\<not> opt_autosave opts \<and> \<not> doc_isSaving d \<and> trim text \<noteq> hash \<longrightarrow>
            onSave_begin opts s =
              (s\<lparr>document := Some (d\<lparr>doc_text := text\<rparr>), isSaving := True,
                 isPublishing := opt_publish opts\<rparr>,
               [Save (d\<lparr>doc_text := text\<rparr>) opts], Some (\<not> truthy (doc_id d))))"
proof (intro conjI impI)
  assume "opt_autosave opts"
  with assms show beg: "onSave_begin opts s = (s, [], None)"
    by (simp add: onSave_begin_def Let_def)
  then show "onSave h opts settled s = (s, [])"
    by (simp add: onSave_def)
next
  assume "\<not> opt_autosave opts \<and> \<not> doc_isSaving d \<and> trim text \<noteq> hash"
  with assms show "onSave_begin opts s =
      (s\<lparr>document := Some (d\<lparr>doc_text := text\<rparr>), isSaving := True,
         isPublishing := opt_publish opts\<rparr>,
       [Save (d\<lparr>doc_text := text\<rparr>) opts], Some (\<not> truthy (doc_id d)))"
    by (simp add: onSave_begin_def Let_def)
qed

theorem autosave_unchanged_suppressed_witness:
  "trim (ascii ''# Title  '') = trim (doc_text published_doc) \<and>
   onSave_begin autosave_save (editing_scene published_doc (ascii ''# Title  '')) =
     (editing_scene published_doc (ascii ''# Title  ''), [], None) \<and>
   onSave_begin explicit_save (editing_scene published_doc (ascii ''# Title  '')) =
     ((editing_scene published_doc (ascii ''# Title  ''))
        \<lparr>document := Some (published_doc\<lparr>doc_text := ascii ''# Title  ''\<rparr>),
         isSaving := True, isPublishing := False\<rparr>,
      [Save (published_doc\<lparr>doc_text := ascii ''# Title  ''\<rparr>) explicit_save], Some False)"
proof -
  let ?t = "ascii ''# Title  ''"
  let ?s = "editing_scene published_doc ?t"
  have d: "document ?s = Some published_doc"
    by (simp add: editing_scene_def initial_scene_def)
  have t: "?t = (case getEditorText ?s of Some t \<Rightarrow> t | None \<Rightarrow> doc_text published_doc)"
    by (simp add: editing_scene_def initial_scene_def)
  have eq: "trim ?t = trim (doc_text published_doc)"
    by (simp add: published_doc_def trim_def ascii_def hash_def isWhiteSpace_def)
  have a: "opt_autosave autosave_save"
    by (simp add: autosave_save_def)
  have e: "\<not> opt_autosave explicit_save \<and> \<not> doc_isSaving published_doc \<and> trim ?t \<noteq> hash"
    "\<not> opt_publish explicit_save" "truthy (doc_id published_doc)"
    by (simp_all add: explicit_save_def published_doc_def trim_def ascii_def hash_def isWhiteSpace_def)
  from autosave_unchanged_suppressed [OF d t eq, of autosave_save example_helpers "Resolves saved_doc"]
    autosave_unchanged_suppressed [OF d t eq, of explicit_save example_helpers "Resolves saved_doc"]
    a e eq
  show ?thesis
    by simp
qed

text \<open>
  C6. Let the scene hold a document, and let the editor report a change with text \<open>t\<close>.
  While fewer than 500 ms have passed without another change, \<open>isDirty\<close> is what it
  was; when 500 ms have passed, \<open>isDirty\<close> is true if and only if \<open>t\<close> trimmed differs
  from the document's text trimmed. The same equivalence holds whenever the body of the
  dirty-check runs on a state with that document and that editor text.
\<close>

theorem dirty_check_after_quiet_period:
  assumes "document (the_scene w) = Some d"
  shows "(\<forall>n < IS_DIRTY_DELAY.
            isDirty (the_scene (elapse n (onChange t w))) = isDirty (the_scene w)) \<and>
         isDirty (the_scene (elapse IS_DIRTY_DELAY (onChange t w))) =
           (trim t \<noteq> trim (doc_text d)) \<and>
         (\<forall>s. document s = Some d \<and> getEditorText s = Some t \<longrightarrow>
            (\<exists>s'. updateIsDirty s = Inr s' \<and> isDirty s' = (trim t \<noteq> trim (doc_text d))))"
proof (intro conjI allI impI)
  fix n
  assume "n < IS_DIRTY_DELAY"
  then have "n < IS_DIRTY_DELAY" and "n < AUTOSAVE_DELAY"
    by (simp_all add: IS_DIRTY_DELAY_def AUTOSAVE_DELAY_def)
  then have "elapse n (onChange t w) =
      (onChange t w)\<lparr>dirty_timer := Some (IS_DIRTY_DELAY - n),
        autosave_timer := Some (AUTOSAVE_DELAY - n)\<rparr>"
    by (intro elapse_before onChange_fields)
  then show "isDirty (the_scene (elapse n (onChange t w))) = isDirty (the_scene w)"
    by (simp add: onChange_fields)
next
  have "0 < IS_DIRTY_DELAY" and "IS_DIRTY_DELAY < AUTOSAVE_DELAY"
    by (simp_all add: IS_DIRTY_DELAY_def AUTOSAVE_DELAY_def)
  then have "elapse IS_DIRTY_DELAY (onChange t w) =
      (run_updateIsDirty (onChange t w))\<lparr>autosave_timer := Some (AUTOSAVE_DELAY - IS_DIRTY_DELAY)\<rparr>"
    by (intro elapse_dirty_fires onChange_fields)
  moreover from assms have "updateIsDirty (the_scene (onChange t w)) =
      Inr ((the_scene (onChange t w))\<lparr>isEmpty := (trim t = hash),
        isDirty := (trim t \<noteq> trim (doc_text d))\<rparr>)"
    by (intro updateIsDirty_loaded) (simp_all add: onChange_fields)
  ultimately show "isDirty (the_scene (elapse IS_DIRTY_DELAY (onChange t w))) =
      (trim t \<noteq> trim (doc_text d))"
    by (simp add: run_updateIsDirty_def)
next
  fix s :: scene
  assume "document s = Some d \<and> getEditorText s = Some t"
  then show "\<exists>s'. updateIsDirty s = Inr s' \<and> isDirty s' = (trim t \<noteq> trim (doc_text d))"
    by (simp add: updateIsDirty_loaded)
qed

theorem dirty_check_after_quiet_period_witness:
  "document (the_scene loaded_world) = Some published_doc \<and>
   trim title_and_body \<noteq> trim (doc_text published_doc) \<and>
   \<not> isDirty (the_scene (elapse 499 (onChange title_and_body loaded_world))) \<and>
   isDirty (the_scene (elapse 500 (onChange title_and_body loaded_world))) \<and>
   \<not> isDirty (the_scene (elapse 500 (onChange (ascii ''# Title '') loaded_world)))"
proof -
  have d: "document (the_scene loaded_world) = Some published_doc"
    by (simp add: loaded_world_def initial_scene_def)
  have clean: "\<not> isDirty (the_scene loaded_world)"
    by (simp add: loaded_world_def initial_scene_def)
  have ne: "trim title_and_body \<noteq> trim (doc_text published_doc)"
    and eq: "trim (ascii ''# Title '') = trim (doc_text published_doc)"
    by (simp_all add: title_and_body_def published_doc_def trim_def ascii_def hash_def isWhiteSpace_def)
  have n: "(499::nat) < IS_DIRTY_DELAY" and m: "IS_DIRTY_DELAY = 500"
    by (simp_all add: IS_DIRTY_DELAY_def)
  from dirty_check_after_quiet_period [OF d, of title_and_body]
    dirty_check_after_quiet_period [OF d, of "ascii ''# Title ''"]
    d clean ne eq n
  show ?thesis
    unfolding m by blast
qed

lemma elapse_add: "elapse (m + n) w = elapse n (elapse m w)"
  by (induction n) simp_all

lemma elapse_autosave_before:
  "dirty_timer w = None \<Longrightarrow> autosave_timer w = Some a \<Longrightarrow> n < a \<Longrightarrow>
     elapse n w = w\<lparr>autosave_timer := Some (a - n)\<rparr>"
proof (induction n)
  case 0
  then show ?case by (cases w) simp
next
  case (Suc n)
  then have "elapse n w = w\<lparr>autosave_timer := Some (a - n)\<rparr>"
    by simp
  moreover from Suc.prems have "\<not> a - n \<le> 1"
    by simp
  ultimately show ?case
    using Suc.prems by (simp add: tick_def tick_dirty_def tick_autosave_def)
qed

lemma elapse_autosave_fires:
  assumes "dirty_timer w = None" and "autosave_timer w = Some a" and "0 < a"
  shows "elapse a w = run_autosave w"
proof -
  from assms obtain n where a: "a = Suc n"
    by (cases a) auto
  with assms have "elapse n w = w\<lparr>autosave_timer := Some (a - n)\<rparr>"
    by (intro elapse_autosave_before) simp_all
  moreover from a have "a - n = 1"
    by simp
  ultimately show ?thesis
    unfolding a using assms
    by (simp add: tick_def tick_dirty_def tick_autosave_def run_autosave_def
        split: prod.split)
qed

lemma elapse_idle:
  "dirty_timer w = None \<Longrightarrow> autosave_timer w = None \<Longrightarrow> elapse n w = w"
  by (induction n) (simp_all add: tick_def tick_dirty_def tick_autosave_def)

text \<open>
  The rest of the scenario: 3000 ms after the change the autosave runs, and however much
  longer one waits, \<^verbatim>\<open>document.save\<close> has been called once, with the editor's text.
\<close>

lemma autosave_scenario:
  "calls (elapse (AUTOSAVE_DELAY + n) (onChange title_and_body loaded_world)) =
     [Save (published_doc\<lparr>doc_text := title_and_body\<rparr>) autosave_save]"
proof -
  let ?w0 = "onChange title_and_body loaded_world"
  let ?w1 = "(run_updateIsDirty ?w0)\<lparr>autosave_timer := Some (AUTOSAVE_DELAY - IS_DIRTY_DELAY)\<rparr>"
  have "0 < IS_DIRTY_DELAY" and lt: "IS_DIRTY_DELAY < AUTOSAVE_DELAY"
    by (simp_all add: IS_DIRTY_DELAY_def AUTOSAVE_DELAY_def)
  then have 1: "elapse IS_DIRTY_DELAY ?w0 = ?w1"
    by (intro elapse_dirty_fires onChange_fields)
  have idle: "dirty_timer ?w1 = None"
    by (simp add: run_updateIsDirty_def split: sum.split)
  from lt have 2: "elapse (AUTOSAVE_DELAY - IS_DIRTY_DELAY) ?w1 = run_autosave ?w1"
    by (intro elapse_autosave_fires idle) simp_all
  have 3: "dirty_timer (run_autosave ?w1) = None" "autosave_timer (run_autosave ?w1) = None"
    using idle by (simp_all add: run_autosave_def split: prod.split)
  from lt have "AUTOSAVE_DELAY + n = IS_DIRTY_DELAY + ((AUTOSAVE_DELAY - IS_DIRTY_DELAY) + n)"
    by simp
  then have "elapse (AUTOSAVE_DELAY + n) ?w0 = run_autosave ?w1"
    by (simp only: elapse_add 1 2 elapse_idle [OF 3])
  moreover have "calls (run_autosave ?w1) =
      [Save (published_doc\<lparr>doc_text := title_and_body\<rparr>) autosave_save]"
    by (simp add: run_autosave_def run_updateIsDirty_def updateIsDirty_def onSave_begin_def
        onChange_def loaded_world_def initial_scene_def published_doc_def title_and_body_def
        autosave_save_def trim_def ascii_def hash_def isWhiteSpace_def Let_def)
  ultimately show ?thesis
    by simp
qed

text \<open>
  C7. When the document fetch throws, or the route has a revision id and the revision
  fetch throws, \<open>error\<close> is set to what was thrown and the load ends there: apart from
  \<open>error\<close> (and \<open>document\<close>, when its fetch had succeeded) the state is as it was, so
  \<open>isDirty\<close> and \<open>isEmpty\<close> are not cleared, and the only calls made are the fetches
  themselves: no document is made the active one, the history is not touched and no
  timer is set.
\<close>

theorem load_failure_sets_error:
  "(fetched_document = Throws err \<longrightarrow>
      loadDocument h this_props props fetched_document fetched_revision s =
        (s\<lparr>error := Some err\<rparr>, [DocumentsFetch (documentSlug props) (shareId props)])) \<and>
   (fetched_document = Resolves d \<and> truthy (revisionId props) \<and> fetched_revision = Throws err \<longrightarrow>
      loadDocument h this_props props fetched_document fetched_revision s =
        (s\<lparr>document := d, error := Some err\<rparr>,
         [DocumentsFetch (documentSlug props) (shareId props),
          RevisionsFetch (documentSlug props) (revisionId props)]))"
  by (simp add: loadDocument_def Let_def)

theorem load_failure_sets_error_witness:
  "loadDocument example_helpers view_props view_props (Throws (Thrown ''Not Found''))
     (Resolves some_revision) (initial_scene None) =
     ((initial_scene None)\<lparr>error := Some (Thrown ''Not Found'')\<rparr>,
      [DocumentsFetch ''title-abc'' None]) \<and>
   truthy (revisionId revision_props) \<and>
   loadDocument example_helpers revision_props revision_props (Resolves (Some published_doc))
     (Throws (Thrown ''Not Found'')) (initial_scene None) =
     ((initial_scene None)\<lparr>document := Some published_doc, error := Some (Thrown ''Not Found'')\<rparr>,
      [DocumentsFetch ''title-abc'' None, RevisionsFetch ''title-abc'' (Some ''r1'')]) \<and>
   isEmpty (initial_scene None)"
proof -
  have r: "truthy (revisionId revision_props)"
    by (simp add: revision_props_def view_props_def)
  from load_failure_sets_error [where fetched_document = "Throws (Thrown ''Not Found'')"
      and err = "Thrown ''Not Found''" and h = example_helpers and this_props = view_props
      and props = view_props and fetched_revision = "Resolves some_revision"
      and s = "initial_scene None"]
    load_failure_sets_error [where fetched_document = "Resolves (Some published_doc)"
      and d = "Some published_doc" and err = "Thrown ''Not Found''" and h = example_helpers
      and this_props = revision_props and props = revision_props
      and fetched_revision = "Throws (Thrown ''Not Found'')" and s = "initial_scene None"]
    r
  show ?thesis
    by (simp add: revision_props_def view_props_def initial_scene_def)
qed

text \<open>
  C8, as stated, fails: the timer is set only when the document has a \<^verbatim>\<open>publishedAt\<close>.
  A draft loaded without error by a signed-in viewer, on a route without share id and
  not in edit mode, is made the active document and no timer is set.
\<close>

theorem view_timer_draft_counterexample:
  "auth_user view_props \<and> \<not> truthy (shareId view_props) \<and>
   \<not> isEditing example_helpers view_props
       (fst (loadDocument example_helpers view_props view_props (Resolves (Some draft_doc))
          (Resolves some_revision) (initial_scene None))) \<and>
   fst (loadDocument example_helpers view_props view_props (Resolves (Some draft_doc))
          (Resolves some_revision) (initial_scene None)) =
     (initial_scene None)\<lparr>document := Some draft_doc, isEmpty := False\<rparr> \<and>
   snd (loadDocument example_helpers view_props view_props (Resolves (Some draft_doc))
          (Resolves some_revision) (initial_scene None)) =
     [DocumentsFetch ''title-abc'' None, SetActiveDocument draft_doc]"
  by (simp add: loadDocument_def loadDocument_finish_def isEditing_def isMove_def Let_def
      example_helpers_def view_props_def draft_doc_def published_doc_def
      initial_scene_def)

lemma timer_in_finish:
  "SetTimeoutView d' ms \<in> set (snd (loadDocument_finish h this_props props s)) \<longleftrightarrow>
     document s = Some d' \<and> auth_user this_props \<and> \<not> truthy (shareId props) \<and>
     \<not> isEditing h this_props s \<and> truthy (doc_publishedAt d') \<and> ms = MARK_AS_VIEWED_AFTER"
  by (auto simp: loadDocument_finish_def Let_def isEditing_def goToDocumentCanonical_def
      split: option.splits)

text \<open>
  C8, amended. A load sets a timer that calls \<^verbatim>\<open>view\<close> of a document after \<open>ms\<close>
  milliseconds if and only if the document fetch yields that document, the revision
  fetch (made when the route has a revision id) does not throw, the viewer is signed in,
  the route has no share id, the scene is not in edit mode, the document is published,
  and \<open>ms\<close> is 3000.
\<close>

theorem view_timer_scheduled_iff:
  "SetTimeoutView d' ms \<in> set (snd (loadDocument h this_props props fetched_document fetched_revision s))
     \<longleftrightarrow>
   fetched_document = Resolves (Some d') \<and>
   (truthy (revisionId props) \<longrightarrow> (\<exists>r. fetched_revision = Resolves r)) \<and>
   auth_user this_props \<and> \<not> truthy (shareId props) \<and>
   \<not> isEditing h this_props (s\<lparr>document := Some d'\<rparr>) \<and>
   truthy (doc_publishedAt d') \<and> ms = 3000"
proof (cases fetched_document)
  case (Throws err)
  then show ?thesis
    by (simp add: loadDocument_def Let_def)
next
  case (Resolves d)
  show ?thesis
  proof (cases "truthy (revisionId props)")
    case True
    show ?thesis
    proof (cases fetched_revision)
      case (Throws err)
      with Resolves True show ?thesis
        by (simp add: loadDocument_def Let_def)
    next
      case r: (Resolves r)
      with Resolves True show ?thesis
        by (auto simp: loadDocument_def Let_def timer_in_finish isEditing_def
            MARK_AS_VIEWED_AFTER_def)
    qed
  next
    case False
    with Resolves show ?thesis
      by (auto simp: loadDocument_def Let_def timer_in_finish isEditing_def
          MARK_AS_VIEWED_AFTER_def)
  qed
qed

theorem view_timer_scheduled_iff_witness:
  "SetTimeoutView published_doc 3000 \<in>
     set (snd (loadDocument example_helpers revision_props revision_props
       (Resolves (Some published_doc)) (Resolves some_revision) (initial_scene None))) \<and>
   SetTimeoutView draft_doc 3000 \<notin>
     set (snd (loadDocument example_helpers view_props view_props
       (Resolves (Some draft_doc)) (Resolves some_revision) (initial_scene None)))"
proof -
  have "truthy (revisionId revision_props)" "auth_user revision_props"
    "\<not> truthy (shareId revision_props)" "truthy (doc_publishedAt published_doc)"
    "\<not> isEditing example_helpers revision_props
        ((initial_scene None)\<lparr>document := Some published_doc\<rparr>)"
    "\<not> truthy (doc_publishedAt draft_doc)"
    by (simp_all add: isEditing_def example_helpers_def revision_props_def view_props_def
        published_doc_def draft_doc_def initial_scene_def)
  with view_timer_scheduled_iff [of published_doc 3000 example_helpers revision_props
      revision_props "Resolves (Some published_doc)" "Resolves some_revision" "initial_scene None"]
    view_timer_scheduled_iff [of draft_doc 3000 example_helpers view_props
      view_props "Resolves (Some draft_doc)" "Resolves some_revision" "initial_scene None"]
  show ?thesis
    by simp
qed

text \<open>
  C9, as stated, fails: after the first save of a document that had no id, requested
  without \<^verbatim>\<open>done\<close>, the scene pushes what \<^verbatim>\<open>documentEditUrl\<close> makes of the saved
  document, not the document's URL.
\<close>

theorem first_save_edit_url_counterexample:
  "\<not> truthy (doc_id new_doc) \<and>
   onSave example_helpers explicit_save (Resolves saved_doc)
     (editing_scene new_doc (ascii ''# Title'')) =
     ((editing_scene new_doc (ascii ''# Title''))
        \<lparr>document := Some (new_doc\<lparr>doc_text := ascii ''# Title''\<rparr>)\<rparr>,
      [Save (new_doc\<lparr>doc_text := ascii ''# Title''\<rparr>) explicit_save,
       HistoryPush ''/doc/title-abc/edit'', SetActiveDocument saved_doc]) \<and>
   doc_url saved_doc = ''/doc/title-abc''"
  by (simp add: onSave_def onSave_begin_def onSave_resume_def Let_def example_helpers_def
      explicit_save_def saved_doc_def published_doc_def new_doc_def editing_scene_def initial_scene_def
      trim_def ascii_def hash_def isWhiteSpace_def)

text \<open>
  C9, amended. Let a save wait for \<^verbatim>\<open>document.save\<close>; its \<open>isNew\<close> says that the
  document had no id before the save. When the save resolves to \<open>saved\<close>, on whatever
  state the scene has by then, \<open>isDirty\<close>, \<open>isSaving\<close> and \<open>isPublishing\<close> are
  cleared; if \<^verbatim>\<open>done\<close> was requested the scene pushes the URL of \<open>saved\<close> and makes
  \<open>saved\<close> the active document; otherwise, if the document had no id, it pushes the edit
  URL of \<open>saved\<close> and makes \<open>saved\<close> the active document; otherwise it makes no call.
\<close>

theorem save_completion:
  assumes "document s = Some d" and "onSave_begin opts s = (s1, es, Some isNew)"
  shows "isNew = (\<not> truthy (doc_id d)) \<and>
         \<not> isDirty (fst (onSave_resume h opts isNew saved s2)) \<and>
         \<not> isSaving (fst (onSave_resume h opts isNew saved s2)) \<and>
         \<not> isPublishing (fst (onSave_resume h opts isNew saved s2)) \<and>
         snd (onSave_resume h opts isNew saved s2) =
           (if opt_done opts then [HistoryPush (doc_url saved), SetActiveDocument saved]
            else if isNew then [HistoryPush (documentEditUrl h saved), SetActiveDocument saved]
            else [])"
  using assms
  by (auto simp: onSave_begin_def onSave_resume_def Let_def split: if_splits)

theorem save_completion_witness:
  "onSave_begin explicit_save (editing_scene new_doc (ascii ''# Title'')) =
     ((editing_scene new_doc (ascii ''# Title''))
        \<lparr>document := Some (new_doc\<lparr>doc_text := ascii ''# Title''\<rparr>), isSaving := True\<rparr>,
      [Save (new_doc\<lparr>doc_text := ascii ''# Title''\<rparr>) explicit_save], Some True) \<and>
   snd (onSave_resume example_helpers explicit_save True saved_doc
     ((editing_scene new_doc (ascii ''# Title''))
        \<lparr>document := Some (new_doc\<lparr>doc_text := ascii ''# Title''\<rparr>), isSaving := True\<rparr>)) =
     [HistoryPush ''/doc/title-abc/edit'', SetActiveDocument saved_doc] \<and>
   \<not> isSaving (fst (onSave_resume example_helpers explicit_save True saved_doc
     ((editing_scene new_doc (ascii ''# Title''))
        \<lparr>document := Some (new_doc\<lparr>doc_text := ascii ''# Title''\<rparr>), isSaving := True\<rparr>)))"
proof -
  let ?s = "editing_scene new_doc (ascii ''# Title'')"
  let ?s1 = "?s\<lparr>document := Some (new_doc\<lparr>doc_text := ascii ''# Title''\<rparr>), isSaving := True\<rparr>"
  let ?es = "[Save (new_doc\<lparr>doc_text := ascii ''# Title''\<rparr>) explicit_save]"
  have d: "document ?s = Some new_doc"
    by (simp add: editing_scene_def initial_scene_def)
  have b: "onSave_begin explicit_save ?s = (?s1, ?es, Some True)"
    by (simp add: onSave_begin_def Let_def explicit_save_def new_doc_def editing_scene_def initial_scene_def
        trim_def ascii_def hash_def isWhiteSpace_def)
  have o: "\<not> opt_done explicit_save" "documentEditUrl example_helpers saved_doc = ''/doc/title-abc/edit''"
    by (simp_all add: explicit_save_def example_helpers_def saved_doc_def published_doc_def)
  from save_completion [OF d b, of example_helpers saved_doc ?s1] b o
  show ?thesis
    by simp
qed

end
